theory Spec2Isabelle
  imports Complex_Main "HOL-Library.Word"
begin

section \<open>micro-bench.h: data model\<close>

text \<open>
  The header exists in two variants in the repository. The single-clock variant measures
  the process CPU clock only; the dual-clock variant measures the CPU clock and the
  monotonic wall clock side by side. Both are embedded here: the single-clock variant
  under the names of the source, the dual-clock variant with the suffix \<open>_dual\<close> where a
  name would clash.

  Conventions of the embedding.
  \<^item> A C \<open>double\<close> is a \<open>real\<close>: the arithmetic is exact, rounding is not modelled.
  \<^item> \<open>long unsigned int\<close> is a \<open>64 word\<close> (LP64); \<open>++\<close> wraps around. The only divisor besides
    \<open>CLOCKS_PER_SEC\<close> is the iteration counter just after its increment, which is zero only
    when the counter has wrapped, after \<open>2^64\<close> samples; there C divides a \<open>double\<close> by zero
    (an infinity or a NaN) and HOL yields \<open>0\<close>. The statements about mean and variance are
    made for fewer than \<open>2^64\<close> samples.
  \<^item> \<open>clock_t\<close>, \<open>time_t\<close> and \<open>long\<close> clock readings are \<open>int\<close>: the code only converts
    them to \<open>double\<close> or subtracts two readings.
  \<^item> A pointer argument is an \<open>option\<close>: \<open>None\<close> is the null pointer, \<open>Some v\<close> points to
    \<open>v\<close>. A function that writes through the pointer returns the new pointee.
  \<^item> The readings of \<open>clock()\<close> and \<open>clock_gettime\<close> are inputs of the functions that
    read them, and \<open>CLOCKS_PER_SEC\<close> (from \<open>time.h\<close>) is the parameter \<open>cps\<close>. It is a
    positive constant in every C library; the statements hold for every value of the
    parameter, and their instances with a positive \<open>cps\<close> are the ones about the code.
  \<^item> Dereferencing a null pointer is the fault \<open>NullDeref\<close>.
  \<^item> The members \<open>min\<close>, \<open>max\<close> and \<open>sum\<close> of the single-clock \<open>MicroBenchData\<close> are the
    fields \<open>min_f\<close>, \<open>max_f\<close> and \<open>sum_f\<close>.
\<close>

datatype fault = NullDeref

record MicroBenchData =
  min_f :: real
  max_f :: real
  sum_f :: real
  mean :: real
  M2 :: real
  variance :: real
  iterations :: "64 word"

record MicroBench =
  data :: MicroBenchData
  start_time :: int

text \<open>The initialiser \<open>{0}\<close>: every member zero.\<close>

definition MicroBenchData_zero :: MicroBenchData where
  "MicroBenchData_zero =
     \<lparr>min_f = 0, max_f = 0, sum_f = 0, mean = 0, M2 = 0, variance = 0, iterations = 0\<rparr>"

definition MicroBench_zero :: MicroBench where
  "MicroBench_zero = \<lparr>data = MicroBenchData_zero, start_time = 0\<rparr>"

section \<open>Single-clock variant\<close>

text \<open>
  The second copy of the header in \<open>micro-bench.h\<close> (struct \<open>MicroBenchData\<close> with the
  members \<open>min\<close> to \<open>iterations\<close>, a single \<open>start_time\<close>). \<open>micro_bench_stop\<close> follows the
  source statement by statement; each \<open>d = ...\<close> of the \<open>let\<close> is one assignment to
  \<open>mb->data\<close>.
\<close>

definition micro_bench_start :: "int \<Rightarrow> MicroBench option \<Rightarrow> MicroBench option" where
  "micro_bench_start now mbp =
     (case mbp of
        None \<Rightarrow> None
      | Some mb \<Rightarrow> Some (mb\<lparr>start_time := now\<rparr>))"

definition micro_bench_stop :: "int \<Rightarrow> int \<Rightarrow> MicroBench option \<Rightarrow> MicroBench option" where
  "micro_bench_stop cps now mbp =
     (case mbp of
        None \<Rightarrow> None
      | Some mb \<Rightarrow>
          (let stop_time = real_of_int now;
               diff = (stop_time - real_of_int (start_time mb)) / real_of_int cps;
               d = data mb;
               d = (if diff < min_f d \<or> min_f d = 0 then d\<lparr>min_f := diff\<rparr> else d);
               d = (if diff > max_f d then d\<lparr>max_f := diff\<rparr> else d);
               d = d\<lparr>sum_f := sum_f d + diff\<rparr>;
               d = d\<lparr>iterations := iterations d + 1\<rparr>;
               delta = diff - mean d;
               d = d\<lparr>mean := mean d + delta / real (unat (iterations d))\<rparr>;
               delta2 = diff - mean d;
               d = d\<lparr>M2 := M2 d + delta * delta2\<rparr>;
               d = d\<lparr>variance := M2 d / real (unat (iterations d))\<rparr>
           in Some (mb\<lparr>data := d\<rparr>)))"

definition micro_bench_clear :: "MicroBench option \<Rightarrow> MicroBench option" where
  "micro_bench_clear mbp =
     (case mbp of
        None \<Rightarrow> None
      | Some mb \<Rightarrow> Some (mb\<lparr>data := MicroBenchData_zero, start_time := 0\<rparr>))"

definition micro_bench_get_min :: "MicroBench option \<Rightarrow> fault + real" where
  "micro_bench_get_min mbp = (case mbp of None \<Rightarrow> Inl NullDeref | Some mb \<Rightarrow> Inr (min_f (data mb)))"

definition micro_bench_get_max :: "MicroBench option \<Rightarrow> fault + real" where
  "micro_bench_get_max mbp = (case mbp of None \<Rightarrow> Inl NullDeref | Some mb \<Rightarrow> Inr (max_f (data mb)))"

definition micro_bench_get_mean :: "MicroBench option \<Rightarrow> fault + real" where
  "micro_bench_get_mean mbp = (case mbp of None \<Rightarrow> Inl NullDeref | Some mb \<Rightarrow> Inr (mean (data mb)))"

definition micro_bench_get_sum :: "MicroBench option \<Rightarrow> fault + real" where
  "micro_bench_get_sum mbp = (case mbp of None \<Rightarrow> Inl NullDeref | Some mb \<Rightarrow> Inr (max_f (data mb)))"

definition micro_bench_get_variance :: "MicroBench option \<Rightarrow> fault + real" where
  "micro_bench_get_variance mbp =
     (case mbp of None \<Rightarrow> Inl NullDeref | Some mb \<Rightarrow> Inr (variance (data mb)))"

subsection \<open>Reporters\<close>

text \<open>
  A reporter prints through \<open>printf\<close>. Its output is the list of its \<open>printf\<close> calls, each
  the format string with the arguments passed for its conversions; how \<open>%f\<close> renders a
  \<open>double\<close> is not modelled. A reporter reads its argument through the pointer, so a null
  pointer is a fault.
\<close>

datatype printf_arg = Double real | ULong "64 word"

type_synonym printf_call = "string \<times> printf_arg list"

type_synonym MicroBenchReporter = "MicroBenchData option \<Rightarrow> fault + printf_call list"

definition newline :: string where
  "newline = [CHR 0x0A]"

definition backslash :: string where
  "backslash = [CHR 0x5C]"

definition micro_bench_default_reporter_stdout :: MicroBenchReporter where
  "micro_bench_default_reporter_stdout dp =
     (case dp of
        None \<Rightarrow> Inl NullDeref
      | Some d \<Rightarrow> Inr
          [(newline, []),
           (''/------------------------'' @ backslash @ newline, []),
           (''| Micro benchmark report |'' @ newline, []),
           (''|------------------------|'' @ newline, []),
           (''|   min    |  %1.7f  |'' @ newline, [Double (min_f d)]),
           (''|   max    |  %1.7f  |'' @ newline, [Double (max_f d)]),
           (''|   sum    |  %1.7f  |'' @ newline, [Double (sum_f d)]),
           (''|   mean   |  %1.7f  |'' @ newline, [Double (mean d)]),
           (''|   var    |  %1.7f  |'' @ newline, [Double (variance d)]),
           (''|   it     |  %9ld  |'' @ newline, [ULong (iterations d)]),
           (backslash @ ''------------------------/'' @ newline, [])])"

definition micro_bench_default_reporter_csv :: MicroBenchReporter where
  "micro_bench_default_reporter_csv dp =
     (case dp of
        None \<Rightarrow> Inl NullDeref
      | Some d \<Rightarrow> Inr
          [(''%f,%f,%f,%f,%f,%ld'' @ newline,
            [Double (min_f d), Double (max_f d), Double (sum_f d),
             Double (mean d), Double (variance d), ULong (iterations d)])])"

text \<open>
  \<open>reporter(&mb->data)\<close>: \<open>data\<close> is the first member of \<open>MicroBench\<close>, so a null \<open>mb\<close>
  hands the reporter a null \<open>data\<close>.
\<close>

definition micro_bench_report_with :: "MicroBench option \<Rightarrow> (MicroBenchData option \<Rightarrow> 'o) \<Rightarrow> 'o" where
  "micro_bench_report_with mbp reporter = reporter (map_option data mbp)"

definition micro_bench_report :: "MicroBench option \<Rightarrow> fault + printf_call list" where
  "micro_bench_report mbp = micro_bench_report_with mbp micro_bench_default_reporter_stdout"

section \<open>Dual-clock variant\<close>

text \<open>
  The first copy of the header in \<open>micro-bench.h\<close>, the one the example program uses: every
  statistic is kept once for the CPU clock (\<open>clock()\<close>) and once for the wall clock
  (\<open>clock_gettime(CLOCK_MONOTONIC)\<close>, a \<open>struct timespec\<close>), with one shared iteration
  counter.
\<close>

record MicroBenchData_dual =
  min_cpu :: real
  min_real :: real
  max_cpu :: real
  max_real :: real
  sum_cpu :: real
  sum_real :: real
  mean_cpu :: real
  mean_real :: real
  M2_cpu :: real
  M2_real :: real
  variance_cpu :: real
  variance_real :: real
  iterations_dual :: "64 word"

record timespec =
  tv_sec :: int
  tv_nsec :: int

record MicroBench_dual =
  data_dual :: MicroBenchData_dual
  start_time_cpu :: int
  start_time_real :: timespec

definition MicroBenchData_dual_zero :: MicroBenchData_dual where
  "MicroBenchData_dual_zero =
     \<lparr>min_cpu = 0, min_real = 0, max_cpu = 0, max_real = 0, sum_cpu = 0, sum_real = 0,
      mean_cpu = 0, mean_real = 0, M2_cpu = 0, M2_real = 0,
      variance_cpu = 0, variance_real = 0, iterations_dual = 0\<rparr>"

definition timespec_zero :: timespec where
  "timespec_zero = \<lparr>tv_sec = 0, tv_nsec = 0\<rparr>"

definition MicroBench_dual_zero :: MicroBench_dual where
  "MicroBench_dual_zero =
     \<lparr>data_dual = MicroBenchData_dual_zero, start_time_cpu = 0, start_time_real = timespec_zero\<rparr>"

definition micro_bench_start_dual ::
  "int \<Rightarrow> timespec \<Rightarrow> MicroBench_dual option \<Rightarrow> MicroBench_dual option" where
  "micro_bench_start_dual now_cpu now_real mbp =
     (case mbp of
        None \<Rightarrow> None
      | Some mb \<Rightarrow> Some (mb\<lparr>start_time_cpu := now_cpu, start_time_real := now_real\<rparr>))"

definition micro_bench_stop_dual ::
  "int \<Rightarrow> int \<Rightarrow> timespec \<Rightarrow> MicroBench_dual option \<Rightarrow> MicroBench_dual option" where
  "micro_bench_stop_dual cps now_cpu now_real mbp =
     (case mbp of
        None \<Rightarrow> None
      | Some mb \<Rightarrow>
          (let stop_time_cpu = real_of_int now_cpu;
               stop_time_real = now_real;
               diff_cpu = (stop_time_cpu - real_of_int (start_time_cpu mb)) / real_of_int cps;
               diff_real =
                 real_of_int (tv_sec stop_time_real - tv_sec (start_time_real mb))
                 + real_of_int (tv_nsec stop_time_real - tv_nsec (start_time_real mb))
                   / 1000000000;
               d = data_dual mb;
               d = (if diff_cpu < min_cpu d \<or> min_cpu d = 0 then d\<lparr>min_cpu := diff_cpu\<rparr> else d);
               d = (if diff_real < min_real d \<or> min_real d = 0
                    then d\<lparr>min_real := diff_real\<rparr> else d);
               d = (if diff_cpu > max_cpu d then d\<lparr>max_cpu := diff_cpu\<rparr> else d);
               d = (if diff_real > max_real d then d\<lparr>max_real := diff_real\<rparr> else d);
               d = d\<lparr>sum_cpu := sum_cpu d + diff_cpu\<rparr>;
               d = d\<lparr>sum_real := sum_real d + diff_real\<rparr>;
               d = d\<lparr>iterations_dual := iterations_dual d + 1\<rparr>;
               delta_cpu = diff_cpu - mean_cpu d;
               d = d\<lparr>mean_cpu := mean_cpu d + delta_cpu / real (unat (iterations_dual d))\<rparr>;
               delta2_cpu = diff_cpu - mean_cpu d;
               d = d\<lparr>M2_cpu := M2_cpu d + delta_cpu * delta2_cpu\<rparr>;
               d = d\<lparr>variance_cpu := M2_cpu d / real (unat (iterations_dual d))\<rparr>;
               delta_real = diff_real - mean_real d;
               d = d\<lparr>mean_real := mean_real d + delta_real / real (unat (iterations_dual d))\<rparr>;
               delta2_real = diff_real - mean_real d;
               d = d\<lparr>M2_real := M2_real d + delta_real * delta2_real\<rparr>;
               d = d\<lparr>variance_real := M2_real d / real (unat (iterations_dual d))\<rparr>
           in Some (mb\<lparr>data_dual := d\<rparr>)))"

definition micro_bench_clear_dual :: "MicroBench_dual option \<Rightarrow> MicroBench_dual option" where
  "micro_bench_clear_dual mbp =
     (case mbp of
        None \<Rightarrow> None
      | Some mb \<Rightarrow>
          Some (mb\<lparr>data_dual := MicroBenchData_dual_zero, start_time_cpu := 0,
                   start_time_real := timespec_zero\<rparr>))"

definition micro_bench_get_min_real :: "MicroBench_dual option \<Rightarrow> fault + real" where
  "micro_bench_get_min_real mbp =
     (case mbp of None \<Rightarrow> Inl NullDeref | Some mb \<Rightarrow> Inr (min_real (data_dual mb)))"

definition micro_bench_get_min_cpu :: "MicroBench_dual option \<Rightarrow> fault + real" where
  "micro_bench_get_min_cpu mbp =
     (case mbp of None \<Rightarrow> Inl NullDeref | Some mb \<Rightarrow> Inr (min_cpu (data_dual mb)))"

definition micro_bench_get_max_real :: "MicroBench_dual option \<Rightarrow> fault + real" where
  "micro_bench_get_max_real mbp =
     (case mbp of None \<Rightarrow> Inl NullDeref | Some mb \<Rightarrow> Inr (max_real (data_dual mb)))"

definition micro_bench_get_max_cpu :: "MicroBench_dual option \<Rightarrow> fault + real" where
  "micro_bench_get_max_cpu mbp =
     (case mbp of None \<Rightarrow> Inl NullDeref | Some mb \<Rightarrow> Inr (max_cpu (data_dual mb)))"

definition micro_bench_get_mean_real :: "MicroBench_dual option \<Rightarrow> fault + real" where
  "micro_bench_get_mean_real mbp =
     (case mbp of None \<Rightarrow> Inl NullDeref | Some mb \<Rightarrow> Inr (mean_real (data_dual mb)))"

definition micro_bench_get_mean_cpu :: "MicroBench_dual option \<Rightarrow> fault + real" where
  "micro_bench_get_mean_cpu mbp =
     (case mbp of None \<Rightarrow> Inl NullDeref | Some mb \<Rightarrow> Inr (mean_cpu (data_dual mb)))"

definition micro_bench_get_sum_real :: "MicroBench_dual option \<Rightarrow> fault + real" where
  "micro_bench_get_sum_real mbp =
     (case mbp of None \<Rightarrow> Inl NullDeref | Some mb \<Rightarrow> Inr (max_real (data_dual mb)))"

definition micro_bench_get_sum_cpu :: "MicroBench_dual option \<Rightarrow> fault + real" where
  "micro_bench_get_sum_cpu mbp =
     (case mbp of None \<Rightarrow> Inl NullDeref | Some mb \<Rightarrow> Inr (max_cpu (data_dual mb)))"

definition micro_bench_get_variance_real :: "MicroBench_dual option \<Rightarrow> fault + real" where
  "micro_bench_get_variance_real mbp =
     (case mbp of None \<Rightarrow> Inl NullDeref | Some mb \<Rightarrow> Inr (variance_real (data_dual mb)))"

definition micro_bench_get_variance_cpu :: "MicroBench_dual option \<Rightarrow> fault + real" where
  "micro_bench_get_variance_cpu mbp =
     (case mbp of None \<Rightarrow> Inl NullDeref | Some mb \<Rightarrow> Inr (variance_cpu (data_dual mb)))"

type_synonym MicroBenchReporter_dual = "MicroBenchData_dual option \<Rightarrow> fault + printf_call list"

definition micro_bench_default_reporter_stdout_dual :: MicroBenchReporter_dual where
  "micro_bench_default_reporter_stdout_dual dp =
     (case dp of
        None \<Rightarrow> Inl NullDeref
      | Some d \<Rightarrow> Inr
          [(newline, []),
           (''/---------------------------------------'' @ backslash @ newline, []),
           (''|         Micro benchmark report        |'' @ newline, []),
           (''|---------------------------------------|'' @ newline, []),
           (''|   ////   |     real     |     CPU     |'' @ newline, []),
           (''|---------------------------------------|'' @ newline, []),
           (''|   min    |  %1.7f   |  %1.7f  |'' @ newline, [Double (min_real d), Double (min_cpu d)]),
           (''|   max    |  %1.7f   |  %1.7f  |'' @ newline, [Double (max_real d), Double (max_cpu d)]),
           (''|   sum    |  %1.7f   |  %1.7f  |'' @ newline, [Double (sum_real d), Double (sum_cpu d)]),
           (''|   mean   |  %1.7f   |  %1.7f  |'' @ newline,
            [Double (mean_real d), Double (mean_cpu d)]),
           (''|   var    |  %1.7f   |  %1.7f  |'' @ newline,
            [Double (variance_real d), Double (variance_cpu d)]),
           (''|---------------------------------------|'' @ newline, []),
           (''|   iterations   |    %9ld         |'' @ newline, [ULong (iterations_dual d)]),
           (backslash @ ''---------------------------------------/'' @ newline, [])])"

definition micro_bench_default_reporter_csv_dual :: MicroBenchReporter_dual where
  "micro_bench_default_reporter_csv_dual dp =
     (case dp of
        None \<Rightarrow> Inl NullDeref
      | Some d \<Rightarrow> Inr
          [(''min_real,min_cpu,sum_real,sum_cpu,mean_real,mean_cpu,variance_real,variance_cpu,iterations''
              @ newline, []),
           (''%f,%f,%f,%f,%f,%f,%f,%f,%f,%f,%ld'' @ newline,
            [Double (min_real d), Double (min_cpu d), Double (max_real d), Double (max_cpu d),
             Double (sum_real d), Double (sum_cpu d), Double (mean_real d), Double (mean_cpu d),
             Double (variance_real d), Double (variance_cpu d), ULong (iterations_dual d)])])"

definition micro_bench_report_with_dual ::
  "MicroBench_dual option \<Rightarrow> (MicroBenchData_dual option \<Rightarrow> 'o) \<Rightarrow> 'o" where
  "micro_bench_report_with_dual mbp reporter = reporter (map_option data_dual mbp)"

definition micro_bench_report_dual :: "MicroBench_dual option \<Rightarrow> fault + printf_call list" where
  "micro_bench_report_dual mbp =
     micro_bench_report_with_dual mbp micro_bench_default_reporter_stdout_dual"

section \<open>Notions used to state the properties\<close>

text \<open>
  The sample a \<open>stop\<close> commits for the CPU clock: the reading at \<open>stop\<close> minus the reading in
  the start slot, in seconds; and the one for the wall clock, from two \<open>timespec\<close> readings.
\<close>

definition elapsed :: "int \<Rightarrow> int \<Rightarrow> int \<Rightarrow> real" where
  "elapsed cps s t = (real_of_int t - real_of_int s) / real_of_int cps"

definition elapsed_real :: "timespec \<Rightarrow> timespec \<Rightarrow> real" where
  "elapsed_real s t =
     real_of_int (tv_sec t - tv_sec s) + real_of_int (tv_nsec t - tv_nsec s) / 1000000000"

text \<open>
  The measuring loop of the example program, \<open>for (...) { start; work; stop; }\<close>: one cycle
  per element, each element the clock readings taken at \<open>start\<close> and at \<open>stop\<close>.
\<close>

fun bench_loop :: "int \<Rightarrow> (int \<times> int) list \<Rightarrow> MicroBench option \<Rightarrow> MicroBench option" where
  "bench_loop cps [] mbp = mbp"
| "bench_loop cps ((s, t) # cs) mbp =
     bench_loop cps cs (micro_bench_stop cps t (micro_bench_start s mbp))"

fun bench_loop_dual ::
  "int \<Rightarrow> ((int \<times> timespec) \<times> (int \<times> timespec)) list \<Rightarrow> MicroBench_dual option
     \<Rightarrow> MicroBench_dual option" where
  "bench_loop_dual cps [] mbp = mbp"
| "bench_loop_dual cps (((sc, sr), (tc, tr)) # cs) mbp =
     bench_loop_dual cps cs
       (micro_bench_stop_dual cps tc tr (micro_bench_start_dual sc sr mbp))"

definition samples :: "int \<Rightarrow> (int \<times> int) list \<Rightarrow> real list" where
  "samples cps cycles = map (\<lambda>(s, t). elapsed cps s t) cycles"

definition samples_cpu :: "int \<Rightarrow> ((int \<times> timespec) \<times> (int \<times> timespec)) list \<Rightarrow> real list" where
  "samples_cpu cps cycles = map (\<lambda>((sc, sr), (tc, tr)). elapsed cps sc tc) cycles"

definition samples_real :: "((int \<times> timespec) \<times> (int \<times> timespec)) list \<Rightarrow> real list" where
  "samples_real cycles = map (\<lambda>((sc, sr), (tc, tr)). elapsed_real sr tr) cycles"

definition arith_mean :: "real list \<Rightarrow> real" where
  "arith_mean xs = sum_list xs / real (length xs)"

definition pop_variance :: "real list \<Rightarrow> real" where
  "pop_variance xs = (\<Sum>x\<leftarrow>xs. (x - arith_mean xs)\<^sup>2) / real (length xs)"

text \<open>One Welford step on the mean and on \<open>M2\<close>, with the counter already incremented.\<close>

definition next_mean :: "real \<Rightarrow> real \<Rightarrow> 64 word \<Rightarrow> real" where
  "next_mean x m it = m + (x - m) / real (unat it)"

definition next_M2 :: "real \<Rightarrow> real \<Rightarrow> 64 word \<Rightarrow> real \<Rightarrow> real" where
  "next_M2 x m it m2 = m2 + (x - m) * (x - next_mean x m it)"

text \<open>
  The invariant of the Welford state after the samples \<open>xs\<close>: the counter is their number,
  the mean times the number is their sum, and \<open>M2\<close> is the sum of squares minus the number
  times the squared mean.
\<close>

definition welford_inv :: "real list \<Rightarrow> 64 word \<Rightarrow> real \<Rightarrow> real \<Rightarrow> bool" where
  "welford_inv xs it m m2 \<longleftrightarrow>
     it = of_nat (length xs) \<and> real (length xs) * m = sum_list xs \<and>
     m2 = (\<Sum>x\<leftarrow>xs. x\<^sup>2) - real (length xs) * m\<^sup>2"

text \<open>The fields of a CSV line: the text before the line feed, cut at the commas.\<close>

fun split_commas :: "string \<Rightarrow> string list" where
  "split_commas [] = [[]]"
| "split_commas (c # cs) =
     (if c = CHR '','' then [] # split_commas cs
      else (case split_commas cs of [] \<Rightarrow> [[c]] | w # ws \<Rightarrow> (c # w) # ws))"

definition csv_fields :: "string \<Rightarrow> string list" where
  "csv_fields line = split_commas (takeWhile (\<lambda>c. c \<noteq> CHR 0x0A) line)"

section \<open>Shared lemmas\<close>

lemmas zero_defs =
  MicroBench_zero_def MicroBenchData_zero_def
  MicroBench_dual_zero_def MicroBenchData_dual_zero_def timespec_zero_def

subsection \<open>Welford's recurrence\<close>

lemma unat_counter:
  assumes "Suc n < 2 ^ 64"
  shows "unat (of_nat n + 1 :: 64 word) = Suc n"
proof -
  have "(of_nat n + 1 :: 64 word) = of_nat (Suc n)" by simp
  then have "unat (of_nat n + 1 :: 64 word) = Suc n mod 2 ^ 64"
    by (simp only: unat_of_nat) simp
  then show ?thesis using assms by simp
qed

lemma welford_algebra:
  fixes x m :: real and n :: nat
  defines "m' \<equiv> m + (x - m) / real (Suc n)"
  shows "real (Suc n) * m' = real n * m + x"
    and "(x - m) * (x - m') = x\<^sup>2 + real n * m\<^sup>2 - real (Suc n) * m'\<^sup>2"
proof -
  have nz: "real (Suc n) \<noteq> 0" by simp
  show 1: "real (Suc n) * m' = real n * m + x"
    unfolding m'_def using nz by (simp add: field_simps)
  have "real (Suc n) * ((x - m) * (x - m')) = (x - m) * (real (Suc n) * x - real (Suc n) * m')"
    by (simp add: algebra_simps)
  also have "\<dots> = (x - m) * (real n * (x - m))"
    unfolding 1 by (simp add: algebra_simps)
  finally have a: "real (Suc n) * ((x - m) * (x - m')) = real n * (x - m)\<^sup>2"
    by (simp add: power2_eq_square algebra_simps)
  have "real (Suc n) * (x\<^sup>2 + real n * m\<^sup>2 - real (Suc n) * m'\<^sup>2)
        = real (Suc n) * x\<^sup>2 + real (Suc n) * real n * m\<^sup>2 - (real (Suc n) * m')\<^sup>2"
    by (simp add: power2_eq_square algebra_simps)
  also have "\<dots> = real n * (x - m)\<^sup>2"
    unfolding 1 by (simp add: power2_eq_square algebra_simps)
  finally have b: "real (Suc n) * (x\<^sup>2 + real n * m\<^sup>2 - real (Suc n) * m'\<^sup>2) = real n * (x - m)\<^sup>2" .
  from a b have "real (Suc n) * ((x - m) * (x - m')) =
      real (Suc n) * (x\<^sup>2 + real n * m\<^sup>2 - real (Suc n) * m'\<^sup>2)" by simp
  then show "(x - m) * (x - m') = x\<^sup>2 + real n * m\<^sup>2 - real (Suc n) * m'\<^sup>2"
    using nz by (simp only: mult_cancel_left) simp
qed

lemma welford_inv_step:
  assumes inv: "welford_inv xs it m m2" and len: "Suc (length xs) < 2 ^ 64"
  shows "welford_inv (xs @ [x]) (it + 1) (next_mean x m (it + 1)) (next_M2 x m (it + 1) m2)"
proof -
  let ?n = "length xs"
  define it' where "it' = it + 1"
  define m' where "m' = next_mean x m it'"
  from inv have it: "it = of_nat ?n" and s: "real ?n * m = sum_list xs"
    and q: "m2 = (\<Sum>x\<leftarrow>xs. x\<^sup>2) - real ?n * m\<^sup>2"
    by (simp_all add: welford_inv_def)
  have u: "unat it' = Suc ?n" using unat_counter [OF len] it by (simp add: it'_def)
  have nm: "m' = m + (x - m) / real (Suc ?n)"
    by (simp only: m'_def next_mean_def u)
  have 1: "real (length (xs @ [x])) * m' = sum_list (xs @ [x])"
    using welford_algebra(1) [of ?n m x] s by (simp add: nm)
  have "next_M2 x m it' m2 = m2 + (x - m) * (x - m')"
    by (simp only: next_M2_def m'_def)
  also have "\<dots> = m2 + (x\<^sup>2 + real ?n * m\<^sup>2 - real (Suc ?n) * m'\<^sup>2)"
    using welford_algebra(2) [of x m ?n] by (simp only: nm)
  also have "\<dots> = (\<Sum>x\<leftarrow>xs @ [x]. x\<^sup>2) - real (length (xs @ [x])) * m'\<^sup>2"
    by (simp add: q)
  finally have 2: "next_M2 x m it' m2 = (\<Sum>x\<leftarrow>xs @ [x]. x\<^sup>2) - real (length (xs @ [x])) * m'\<^sup>2" .
  have 3: "it' = of_nat (length (xs @ [x]))" using it by (simp add: it'_def)
  have "welford_inv (xs @ [x]) it' m' (next_M2 x m it' m2)"
    unfolding welford_inv_def by (intro conjI) (rule 3, rule 1, rule 2)
  then show ?thesis by (simp only: m'_def it'_def)
qed

lemma sum_sq_dev:
  fixes c :: real
  shows "(\<Sum>x\<leftarrow>xs. (x - c)\<^sup>2) = (\<Sum>x\<leftarrow>xs. x\<^sup>2) - 2 * c * sum_list xs + real (length xs) * c\<^sup>2"
  by (induction xs) (simp_all add: power2_eq_square algebra_simps)

lemma welford_inv_result:
  assumes inv: "welford_inv xs it m m2" and ne: "xs \<noteq> []"
  shows "m = arith_mean xs" and "m2 / real (length xs) = pop_variance xs"
proof -
  let ?n = "length xs"
  from ne have nz: "real ?n \<noteq> 0" by simp
  from inv have s: "real ?n * m = sum_list xs"
    and q: "m2 = (\<Sum>x\<leftarrow>xs. x\<^sup>2) - real ?n * m\<^sup>2"
    by (simp_all add: welford_inv_def)
  show m: "m = arith_mean xs"
    unfolding arith_mean_def using s nz by (simp add: field_simps)
  have "(\<Sum>x\<leftarrow>xs. (x - m)\<^sup>2) = (\<Sum>x\<leftarrow>xs. x\<^sup>2) - 2 * m * (real ?n * m) + real ?n * m\<^sup>2"
    by (simp only: sum_sq_dev s)
  also have "\<dots> = m2" unfolding q by (simp add: power2_eq_square algebra_simps)
  finally show "m2 / real (length xs) = pop_variance xs"
    unfolding pop_variance_def m [symmetric] by simp
qed


subsection \<open>One call\<close>

lemma stop_Some:
  "\<exists>mb'. micro_bench_stop cps now (Some mb) = Some mb' \<and> start_time mb' = start_time mb"
  by (simp add: micro_bench_stop_def Let_def)

lemma start_same: "start_time mb = s \<Longrightarrow> micro_bench_start s (Some mb) = Some mb"
  by (simp add: micro_bench_start_def)

lemma stop_dual_Some:
  "\<exists>mb'. micro_bench_stop_dual cps tc tr (Some mb) = Some mb' \<and>
     start_time_cpu mb' = start_time_cpu mb \<and> start_time_real mb' = start_time_real mb"
  by (simp add: micro_bench_stop_dual_def Let_def)

lemma start_dual_same:
  "start_time_cpu mb = sc \<Longrightarrow> start_time_real mb = sr \<Longrightarrow>
   micro_bench_start_dual sc sr (Some mb) = Some mb"
  by (simp add: micro_bench_start_dual_def)

lemma null_is_noop:
  "micro_bench_start now None = None"
  "micro_bench_stop cps now None = None"
  "micro_bench_clear None = None"
  "micro_bench_start_dual now_cpu now_real None = None"
  "micro_bench_stop_dual cps now_cpu now_real None = None"
  "micro_bench_clear_dual None = None"
  by (simp_all add: micro_bench_start_def micro_bench_stop_def micro_bench_clear_def
      micro_bench_start_dual_def micro_bench_stop_dual_def micro_bench_clear_dual_def)

lemma cycle_fields:
  "\<exists>mb'. micro_bench_stop cps t (micro_bench_start s (Some mb)) = Some mb' \<and>
     iterations (data mb') = iterations (data mb) + 1 \<and>
     mean (data mb') =
       next_mean (elapsed cps s t) (mean (data mb)) (iterations (data mb) + 1) \<and>
     M2 (data mb') =
       next_M2 (elapsed cps s t) (mean (data mb)) (iterations (data mb) + 1) (M2 (data mb)) \<and>
     variance (data mb') = M2 (data mb') / real (unat (iterations (data mb')))"
  by (simp add: micro_bench_stop_def micro_bench_start_def Let_def elapsed_def
      next_mean_def next_M2_def)

lemma cycle_fields_dual:
  "\<exists>mb'. micro_bench_stop_dual cps tc tr (micro_bench_start_dual sc sr (Some mb)) = Some mb' \<and>
     iterations_dual (data_dual mb') = iterations_dual (data_dual mb) + 1 \<and>
     mean_cpu (data_dual mb') =
       next_mean (elapsed cps sc tc) (mean_cpu (data_dual mb))
         (iterations_dual (data_dual mb) + 1) \<and>
     M2_cpu (data_dual mb') =
       next_M2 (elapsed cps sc tc) (mean_cpu (data_dual mb))
         (iterations_dual (data_dual mb) + 1) (M2_cpu (data_dual mb)) \<and>
     variance_cpu (data_dual mb') =
       M2_cpu (data_dual mb') / real (unat (iterations_dual (data_dual mb'))) \<and>
     mean_real (data_dual mb') =
       next_mean (elapsed_real sr tr) (mean_real (data_dual mb))
         (iterations_dual (data_dual mb) + 1) \<and>
     M2_real (data_dual mb') =
       next_M2 (elapsed_real sr tr) (mean_real (data_dual mb))
         (iterations_dual (data_dual mb) + 1) (M2_real (data_dual mb)) \<and>
     variance_real (data_dual mb') =
       M2_real (data_dual mb') / real (unat (iterations_dual (data_dual mb')))"
  by (simp add: micro_bench_stop_dual_def micro_bench_start_dual_def Let_def elapsed_def
      elapsed_real_def next_mean_def next_M2_def)

subsection \<open>The measuring loop\<close>

lemma samples_snoc: "samples cps (cs @ [(s, t)]) = samples cps cs @ [elapsed cps s t]"
  by (simp add: samples_def)

lemma bench_loop_snoc:
  "bench_loop cps (cs @ [(s, t)]) mbp =
     micro_bench_stop cps t (micro_bench_start s (bench_loop cps cs mbp))"
  by (induction cs arbitrary: mbp) auto

lemma welford_inv_Nil: "welford_inv [] 0 0 0"
  by (simp add: welford_inv_def)

lemma bench_loop_inv:
  "length cycles < 2 ^ 64 \<Longrightarrow>
   \<exists>mb'. bench_loop cps cycles (micro_bench_clear (Some mb)) = Some mb' \<and>
     welford_inv (samples cps cycles) (iterations (data mb')) (mean (data mb')) (M2 (data mb')) \<and>
     (cycles \<noteq> [] \<longrightarrow> variance (data mb') = M2 (data mb') / real (length cycles))"
proof (induction cycles rule: rev_induct)
  case Nil
  show ?case
    using welford_inv_Nil
    by (simp add: micro_bench_clear_def MicroBenchData_zero_def samples_def)
next
  case (snoc c cs)
  obtain s t where c: "c = (s, t)" by (cases c)
  from snoc.prems have len: "Suc (length cs) < 2 ^ 64" by simp
  then have "length cs < 2 ^ 64" by simp
  from snoc.IH [OF this] obtain mb1 where
    run1: "bench_loop cps cs (micro_bench_clear (Some mb)) = Some mb1" and
    inv1: "welford_inv (samples cps cs) (iterations (data mb1)) (mean (data mb1)) (M2 (data mb1))"
    by blast
  from cycle_fields [of cps t s mb1] obtain mb2 where
    run2: "micro_bench_stop cps t (micro_bench_start s (Some mb1)) = Some mb2" and
    it2: "iterations (data mb2) = iterations (data mb1) + 1" and
    m2: "mean (data mb2) =
       next_mean (elapsed cps s t) (mean (data mb1)) (iterations (data mb1) + 1)" and
    q2: "M2 (data mb2) =
       next_M2 (elapsed cps s t) (mean (data mb1)) (iterations (data mb1) + 1) (M2 (data mb1))" and
    v2: "variance (data mb2) = M2 (data mb2) / real (unat (iterations (data mb2)))"
    by blast
  have len1: "Suc (length (samples cps cs)) < 2 ^ 64" using len by (simp add: samples_def)
  have inv2: "welford_inv (samples cps (cs @ [c])) (iterations (data mb2)) (mean (data mb2))
      (M2 (data mb2))"
    using welford_inv_step [OF inv1 len1, of "elapsed cps s t"]
    by (simp only: c samples_snoc it2 m2 q2)
  have "iterations (data mb1) = of_nat (length cs)"
    using inv1 by (simp add: welford_inv_def samples_def)
  then have "unat (iterations (data mb2)) = Suc (length cs)"
    using unat_counter [OF len] by (simp only: it2)
  then have var: "variance (data mb2) = M2 (data mb2) / real (length (cs @ [c]))"
    by (simp only: v2) simp
  have "bench_loop cps (cs @ [c]) (micro_bench_clear (Some mb)) = Some mb2"
    by (simp only: c bench_loop_snoc run1 run2)
  then show ?case using inv2 var by blast
qed

lemma samples_dual_snoc:
  "samples_cpu cps (cs @ [((sc, sr), (tc, tr))]) = samples_cpu cps cs @ [elapsed cps sc tc]"
  "samples_real (cs @ [((sc, sr), (tc, tr))]) = samples_real cs @ [elapsed_real sr tr]"
  by (simp_all add: samples_cpu_def samples_real_def)

lemma bench_loop_dual_snoc:
  "bench_loop_dual cps (cs @ [((sc, sr), (tc, tr))]) mbp =
     micro_bench_stop_dual cps tc tr (micro_bench_start_dual sc sr (bench_loop_dual cps cs mbp))"
  by (induction cs arbitrary: mbp) auto

lemma bench_loop_dual_inv:
  "length cycles < 2 ^ 64 \<Longrightarrow>
   \<exists>mb'. bench_loop_dual cps cycles (micro_bench_clear_dual (Some mb)) = Some mb' \<and>
     welford_inv (samples_cpu cps cycles) (iterations_dual (data_dual mb'))
       (mean_cpu (data_dual mb')) (M2_cpu (data_dual mb')) \<and>
     welford_inv (samples_real cycles) (iterations_dual (data_dual mb'))
       (mean_real (data_dual mb')) (M2_real (data_dual mb')) \<and>
     (cycles \<noteq> [] \<longrightarrow>
        variance_cpu (data_dual mb') = M2_cpu (data_dual mb') / real (length cycles) \<and>
        variance_real (data_dual mb') = M2_real (data_dual mb') / real (length cycles))"
proof (induction cycles rule: rev_induct)
  case Nil
  show ?case
    using welford_inv_Nil
    by (simp add: micro_bench_clear_dual_def MicroBenchData_dual_zero_def
        samples_cpu_def samples_real_def)
next
  case (snoc c cs)
  obtain sc sr tc tr where c: "c = ((sc, sr), (tc, tr))" by (metis surj_pair)
  from snoc.prems have len: "Suc (length cs) < 2 ^ 64" by simp
  then have "length cs < 2 ^ 64" by simp
  from snoc.IH [OF this] obtain mb1 where
    run1: "bench_loop_dual cps cs (micro_bench_clear_dual (Some mb)) = Some mb1" and
    invc: "welford_inv (samples_cpu cps cs) (iterations_dual (data_dual mb1))
       (mean_cpu (data_dual mb1)) (M2_cpu (data_dual mb1))" and
    invr: "welford_inv (samples_real cs) (iterations_dual (data_dual mb1))
       (mean_real (data_dual mb1)) (M2_real (data_dual mb1))"
    by blast
  from cycle_fields_dual [of cps tc tr sc sr mb1] obtain mb2 where
    run2: "micro_bench_stop_dual cps tc tr (micro_bench_start_dual sc sr (Some mb1)) = Some mb2" and
    it2: "iterations_dual (data_dual mb2) = iterations_dual (data_dual mb1) + 1" and
    mc: "mean_cpu (data_dual mb2) =
       next_mean (elapsed cps sc tc) (mean_cpu (data_dual mb1))
         (iterations_dual (data_dual mb1) + 1)" and
    qc: "M2_cpu (data_dual mb2) =
       next_M2 (elapsed cps sc tc) (mean_cpu (data_dual mb1))
         (iterations_dual (data_dual mb1) + 1) (M2_cpu (data_dual mb1))" and
    vc: "variance_cpu (data_dual mb2) =
       M2_cpu (data_dual mb2) / real (unat (iterations_dual (data_dual mb2)))" and
    mr: "mean_real (data_dual mb2) =
       next_mean (elapsed_real sr tr) (mean_real (data_dual mb1))
         (iterations_dual (data_dual mb1) + 1)" and
    qr: "M2_real (data_dual mb2) =
       next_M2 (elapsed_real sr tr) (mean_real (data_dual mb1))
         (iterations_dual (data_dual mb1) + 1) (M2_real (data_dual mb1))" and
    vr: "variance_real (data_dual mb2) =
       M2_real (data_dual mb2) / real (unat (iterations_dual (data_dual mb2)))"
    by blast
  have lenc: "Suc (length (samples_cpu cps cs)) < 2 ^ 64"
    using len by (simp add: samples_cpu_def)
  have lenr: "Suc (length (samples_real cs)) < 2 ^ 64"
    using len by (simp add: samples_real_def)
  have invc2: "welford_inv (samples_cpu cps (cs @ [c])) (iterations_dual (data_dual mb2))
      (mean_cpu (data_dual mb2)) (M2_cpu (data_dual mb2))"
    using welford_inv_step [OF invc lenc, of "elapsed cps sc tc"]
    by (simp only: c samples_dual_snoc it2 mc qc)
  have invr2: "welford_inv (samples_real (cs @ [c])) (iterations_dual (data_dual mb2))
      (mean_real (data_dual mb2)) (M2_real (data_dual mb2))"
    using welford_inv_step [OF invr lenr, of "elapsed_real sr tr"]
    by (simp only: c samples_dual_snoc it2 mr qr)
  have "iterations_dual (data_dual mb1) = of_nat (length cs)"
    using invc by (simp add: welford_inv_def samples_cpu_def)
  then have u: "unat (iterations_dual (data_dual mb2)) = Suc (length cs)"
    using unat_counter [OF len] by (simp only: it2)
  have varc: "variance_cpu (data_dual mb2) = M2_cpu (data_dual mb2) / real (length (cs @ [c]))"
    by (simp only: vc u) simp
  have varr: "variance_real (data_dual mb2) = M2_real (data_dual mb2) / real (length (cs @ [c]))"
    by (simp only: vr u) simp
  have "bench_loop_dual cps (cs @ [c]) (micro_bench_clear_dual (Some mb)) = Some mb2"
    by (simp only: c bench_loop_dual_snoc run1 run2)
  then show ?case using invc2 invr2 varc varr by blast
qed

section \<open>Mean and variance\<close>

text \<open>
  Claim C1. Start from a cleared benchmark and run \<open>N \<ge> 1\<close> start/stop cycles, so that \<open>N\<close>
  samples are fed into the accumulator by \<open>micro_bench_stop\<close>. The run returns, and after
  it the mean field is the arithmetic mean of the \<open>N\<close> samples and the variance field is
  their population variance, the sum of \<open>(x - mean)\<^sup>2\<close> divided by \<open>N\<close>, in exact arithmetic.
  This holds in the single-clock variant and, for the CPU samples and for the wall-clock
  samples, in the dual-clock variant. The iteration counter is a 64-bit unsigned integer,
  so \<open>N\<close> is below \<open>2^64\<close>.
\<close>

theorem welford_mean_variance:
  assumes "cycles \<noteq> []" and "length cycles < 2 ^ 64"
    and "dcycles \<noteq> []" and "length dcycles < 2 ^ 64"
  shows "(\<exists>mb'. bench_loop cps cycles (micro_bench_clear (Some mb)) = Some mb' \<and>
            mean (data mb') = arith_mean (samples cps cycles) \<and>
            variance (data mb') = pop_variance (samples cps cycles)) \<and>
         (\<exists>db'. bench_loop_dual cps dcycles (micro_bench_clear_dual (Some db)) = Some db' \<and>
            mean_cpu (data_dual db') = arith_mean (samples_cpu cps dcycles) \<and>
            variance_cpu (data_dual db') = pop_variance (samples_cpu cps dcycles) \<and>
            mean_real (data_dual db') = arith_mean (samples_real dcycles) \<and>
            variance_real (data_dual db') = pop_variance (samples_real dcycles))"
proof
  from bench_loop_inv [OF assms(2), of cps mb] assms(1) obtain mb' where
    run: "bench_loop cps cycles (micro_bench_clear (Some mb)) = Some mb'" and
    inv: "welford_inv (samples cps cycles) (iterations (data mb')) (mean (data mb'))
      (M2 (data mb'))" and
    var: "variance (data mb') = M2 (data mb') / real (length cycles)"
    by blast
  have ne: "samples cps cycles \<noteq> []" using assms(1) by (simp add: samples_def)
  have l: "length (samples cps cycles) = length cycles" by (simp add: samples_def)
  from welford_inv_result [OF inv ne] var l run
  show "\<exists>mb'. bench_loop cps cycles (micro_bench_clear (Some mb)) = Some mb' \<and>
            mean (data mb') = arith_mean (samples cps cycles) \<and>
            variance (data mb') = pop_variance (samples cps cycles)"
    by simp
next
  from bench_loop_dual_inv [OF assms(4), of cps db] assms(3) obtain db' where
    run: "bench_loop_dual cps dcycles (micro_bench_clear_dual (Some db)) = Some db'" and
    invc: "welford_inv (samples_cpu cps dcycles) (iterations_dual (data_dual db'))
       (mean_cpu (data_dual db')) (M2_cpu (data_dual db'))" and
    invr: "welford_inv (samples_real dcycles) (iterations_dual (data_dual db'))
       (mean_real (data_dual db')) (M2_real (data_dual db'))" and
    varc: "variance_cpu (data_dual db') = M2_cpu (data_dual db') / real (length dcycles)" and
    varr: "variance_real (data_dual db') = M2_real (data_dual db') / real (length dcycles)"
    by blast
  have nec: "samples_cpu cps dcycles \<noteq> []" using assms(3) by (simp add: samples_cpu_def)
  have ner: "samples_real dcycles \<noteq> []" using assms(3) by (simp add: samples_real_def)
  have lc: "length (samples_cpu cps dcycles) = length dcycles" by (simp add: samples_cpu_def)
  have lr: "length (samples_real dcycles) = length dcycles" by (simp add: samples_real_def)
  from welford_inv_result [OF invc nec] welford_inv_result [OF invr ner] varc varr lc lr run
  show "\<exists>db'. bench_loop_dual cps dcycles (micro_bench_clear_dual (Some db)) = Some db' \<and>
            mean_cpu (data_dual db') = arith_mean (samples_cpu cps dcycles) \<and>
            variance_cpu (data_dual db') = pop_variance (samples_cpu cps dcycles) \<and>
            mean_real (data_dual db') = arith_mean (samples_real dcycles) \<and>
            variance_real (data_dual db') = pop_variance (samples_real dcycles)"
    by simp
qed

theorem welford_mean_variance_witness:
  "(\<exists>mb'. bench_loop 1000000 [(0, 80000), (0, 90000), (0, 70000)]
            (micro_bench_clear (Some MicroBench_zero)) = Some mb' \<and>
          mean (data mb') = 2 / 25 \<and> variance (data mb') = 1 / 15000) \<and>
   (\<exists>db'. bench_loop_dual 1000000
            [((0, \<lparr>tv_sec = 0, tv_nsec = 0\<rparr>), (80000, \<lparr>tv_sec = 0, tv_nsec = 80000000\<rparr>)),
             ((0, \<lparr>tv_sec = 0, tv_nsec = 0\<rparr>), (90000, \<lparr>tv_sec = 0, tv_nsec = 90000000\<rparr>)),
             ((0, \<lparr>tv_sec = 1, tv_nsec = 950000000\<rparr>), (70000, \<lparr>tv_sec = 2, tv_nsec = 20000000\<rparr>))]
            (micro_bench_clear_dual (Some MicroBench_dual_zero)) = Some db' \<and>
          mean_cpu (data_dual db') = 2 / 25 \<and> variance_cpu (data_dual db') = 1 / 15000 \<and>
          mean_real (data_dual db') = 2 / 25 \<and> variance_real (data_dual db') = 1 / 15000)"
proof -
  let ?cs = "[(0, 80000), (0, 90000), (0, 70000)] :: (int \<times> int) list"
  let ?ds = "[((0, \<lparr>tv_sec = 0, tv_nsec = 0\<rparr>), (80000, \<lparr>tv_sec = 0, tv_nsec = 80000000\<rparr>)),
             ((0, \<lparr>tv_sec = 0, tv_nsec = 0\<rparr>), (90000, \<lparr>tv_sec = 0, tv_nsec = 90000000\<rparr>)),
             ((0, \<lparr>tv_sec = 1, tv_nsec = 950000000\<rparr>), (70000, \<lparr>tv_sec = 2, tv_nsec = 20000000\<rparr>))]
             :: ((int \<times> timespec) \<times> (int \<times> timespec)) list"
  have a: "arith_mean (samples 1000000 ?cs) = 2 / 25"
    by (simp add: arith_mean_def samples_def elapsed_def)
  have b: "pop_variance (samples 1000000 ?cs) = 1 / 15000"
    by (simp add: pop_variance_def arith_mean_def samples_def elapsed_def power2_eq_square)
  have c: "arith_mean (samples_cpu 1000000 ?ds) = 2 / 25"
    by (simp add: arith_mean_def samples_cpu_def elapsed_def)
  have d: "pop_variance (samples_cpu 1000000 ?ds) = 1 / 15000"
    by (simp add: pop_variance_def arith_mean_def samples_cpu_def elapsed_def power2_eq_square)
  have e: "arith_mean (samples_real ?ds) = 2 / 25"
    by (simp add: arith_mean_def samples_real_def elapsed_real_def)
  have f: "pop_variance (samples_real ?ds) = 1 / 15000"
    by (simp add: pop_variance_def arith_mean_def samples_real_def elapsed_real_def
        power2_eq_square)
  have "?cs \<noteq> []" and "length ?cs < 2 ^ 64" and "?ds \<noteq> []" and "length ?ds < 2 ^ 64"
    by simp_all
  from welford_mean_variance [OF this, of 1000000 MicroBench_zero MicroBench_dual_zero]
  show ?thesis
    by (simp only: a b c d e f)
qed

section \<open>Minimum and maximum\<close>

lemma cycle_min_max:
  "\<exists>mb'. micro_bench_stop cps t (micro_bench_start s (Some mb)) = Some mb' \<and>
     min_f (data mb') =
       (if elapsed cps s t < min_f (data mb) \<or> min_f (data mb) = 0 then elapsed cps s t
        else min_f (data mb)) \<and>
     max_f (data mb') =
       (if elapsed cps s t > max_f (data mb) then elapsed cps s t else max_f (data mb))"
  by (simp add: micro_bench_stop_def micro_bench_start_def Let_def elapsed_def)

text \<open>
  As long as every sample is strictly positive, the minimum and maximum fields are the
  minimum and the maximum of the samples.
\<close>

lemma min_max_of_positive_samples:
  assumes "list_all (\<lambda>x. 0 < x) (samples cps cycles)"
  shows "\<exists>mb'. bench_loop cps cycles (micro_bench_clear (Some mb)) = Some mb' \<and>
     (if cycles = [] then min_f (data mb') = 0 \<and> max_f (data mb') = 0
      else min_f (data mb') = Min (set (samples cps cycles)) \<and>
           max_f (data mb') = Max (set (samples cps cycles)))"
  using assms
proof (induction cycles rule: rev_induct)
  case Nil
  show ?case by (simp add: micro_bench_clear_def MicroBenchData_zero_def)
next
  case (snoc c cs)
  obtain s t where c: "c = (s, t)" by (cases c)
  let ?x = "elapsed cps s t"
  let ?S = "set (samples cps cs)"
  from snoc.prems have pos: "list_all (\<lambda>x. 0 < x) (samples cps cs)" and x: "0 < ?x"
    by (simp_all add: c samples_snoc)
  from snoc.IH [OF pos] obtain mb1 where
    run1: "bench_loop cps cs (micro_bench_clear (Some mb)) = Some mb1" and
    mm1: "if cs = [] then min_f (data mb1) = 0 \<and> max_f (data mb1) = 0
      else min_f (data mb1) = Min ?S \<and> max_f (data mb1) = Max ?S"
    by blast
  from cycle_min_max [of cps t s mb1] obtain mb2 where
    run2: "micro_bench_stop cps t (micro_bench_start s (Some mb1)) = Some mb2" and
    mn: "min_f (data mb2) =
       (if ?x < min_f (data mb1) \<or> min_f (data mb1) = 0 then ?x else min_f (data mb1))" and
    mx: "max_f (data mb2) = (if ?x > max_f (data mb1) then ?x else max_f (data mb1))"
    by blast
  have run: "bench_loop cps (cs @ [c]) (micro_bench_clear (Some mb)) = Some mb2"
    by (simp only: c bench_loop_snoc run1 run2)
  have set: "set (samples cps (cs @ [c])) = insert ?x ?S"
    by (simp add: c samples_snoc)
  have "min_f (data mb2) = Min (insert ?x ?S) \<and> max_f (data mb2) = Max (insert ?x ?S)"
  proof (cases "cs = []")
    case True
    then show ?thesis using mm1 mn mx x by (simp add: samples_def)
  next
    case False
    then have ne: "?S \<noteq> {}" by (simp add: samples_def)
    have fin: "finite ?S" by simp
    from False mm1 have m1: "min_f (data mb1) = Min ?S" and M1: "max_f (data mb1) = Max ?S"
      by simp_all
    have "Min ?S \<in> ?S" using fin ne by (rule Min_in)
    then have "0 < Min ?S" using pos by (simp add: list_all_iff)
    then have "min_f (data mb2) = min ?x (Min ?S)"
      using mn m1 by (simp add: min_def)
    moreover have "max_f (data mb2) = max ?x (Max ?S)"
      using mx M1 by (simp add: max_def)
    ultimately show ?thesis using fin ne by simp
  qed
  then show ?case using run set by simp
qed

text \<open>
  Claim C2. After each \<open>stop\<close> the minimum field is at most every observed sample and the
  maximum field at least every observed sample, also when the first sample is exactly
  \<open>0.0\<close>. The code takes a minimum field of \<open>0.0\<close> to mean that no sample was seen yet: after
  the samples \<open>0.0\<close> and \<open>1.0\<close> the minimum field is \<open>1.0\<close>, above the observed sample \<open>0.0\<close>.
  In the dual-clock run below the CPU samples are \<open>0.0, 1.0\<close> and the wall-clock samples
  \<open>1.0, 2.0\<close>; the CPU minimum ends at \<open>1.0\<close>.
\<close>

theorem min_lost_after_zero_sample:
  "samples 1000000 [(0, 0), (0, 1000000)] = [0, 1] \<and>
   bench_loop 1000000 [(0, 0), (0, 1000000)] (micro_bench_clear (Some MicroBench_zero)) =
     Some \<lparr>data = \<lparr>min_f = 1, max_f = 1, sum_f = 1, mean = 1 / 2, M2 = 1 / 2,
                    variance = 1 / 4, iterations = 2\<rparr>,
           start_time = 0\<rparr> \<and>
   samples_cpu 1000000
     [((0, timespec_zero), (0, \<lparr>tv_sec = 1, tv_nsec = 0\<rparr>)),
      ((0, timespec_zero), (1000000, \<lparr>tv_sec = 2, tv_nsec = 0\<rparr>))] = [0, 1] \<and>
   samples_real
     [((0, timespec_zero), (0, \<lparr>tv_sec = 1, tv_nsec = 0\<rparr>)),
      ((0, timespec_zero), (1000000, \<lparr>tv_sec = 2, tv_nsec = 0\<rparr>))] = [1, 2] \<and>
   bench_loop_dual 1000000
     [((0, timespec_zero), (0, \<lparr>tv_sec = 1, tv_nsec = 0\<rparr>)),
      ((0, timespec_zero), (1000000, \<lparr>tv_sec = 2, tv_nsec = 0\<rparr>))]
     (micro_bench_clear_dual (Some MicroBench_dual_zero)) =
     Some \<lparr>data_dual =
             \<lparr>min_cpu = 1, min_real = 1, max_cpu = 1, max_real = 2, sum_cpu = 1, sum_real = 3,
              mean_cpu = 1 / 2, mean_real = 3 / 2, M2_cpu = 1 / 2, M2_real = 1 / 2,
              variance_cpu = 1 / 4, variance_real = 1 / 4, iterations_dual = 2\<rparr>,
           start_time_cpu = 0, start_time_real = timespec_zero\<rparr>"
  by (simp add: samples_def samples_cpu_def samples_real_def elapsed_def elapsed_real_def
      micro_bench_stop_def micro_bench_start_def micro_bench_clear_def
      micro_bench_stop_dual_def micro_bench_start_dual_def micro_bench_clear_dual_def
      zero_defs Let_def)

section \<open>The sum and its getter\<close>

text \<open>The sum field is the sum of the samples fed since the benchmark was cleared.\<close>

lemma bench_loop_sum:
  "\<exists>mb'. bench_loop cps cycles (micro_bench_clear (Some mb)) = Some mb' \<and>
     sum_f (data mb') = sum_list (samples cps cycles)"
proof (induction cycles rule: rev_induct)
  case Nil
  show ?case by (simp add: micro_bench_clear_def MicroBenchData_zero_def samples_def)
next
  case (snoc c cs)
  obtain s t where c: "c = (s, t)" by (cases c)
  from snoc.IH obtain mb1 where
    run1: "bench_loop cps cs (micro_bench_clear (Some mb)) = Some mb1" and
    s1: "sum_f (data mb1) = sum_list (samples cps cs)"
    by blast
  have "\<exists>mb2. micro_bench_stop cps t (micro_bench_start s (Some mb1)) = Some mb2 \<and>
      sum_f (data mb2) = sum_f (data mb1) + elapsed cps s t"
    by (simp add: micro_bench_stop_def micro_bench_start_def Let_def elapsed_def)
  then obtain mb2 where
    run2: "micro_bench_stop cps t (micro_bench_start s (Some mb1)) = Some mb2" and
    s2: "sum_f (data mb2) = sum_f (data mb1) + elapsed cps s t"
    by blast
  have "bench_loop cps (cs @ [c]) (micro_bench_clear (Some mb)) = Some mb2"
    by (simp only: c bench_loop_snoc run1 run2)
  then show ?case using s1 s2 by (simp add: c samples_snoc)
qed

text \<open>The three sum getters read the maximum field.\<close>

lemma get_sum_is_get_max:
  "micro_bench_get_sum mbp = micro_bench_get_max mbp"
  "micro_bench_get_sum_real dbp = micro_bench_get_max_real dbp"
  "micro_bench_get_sum_cpu dbp = micro_bench_get_max_cpu dbp"
  by (simp_all add: micro_bench_get_sum_def micro_bench_get_max_def
      micro_bench_get_sum_real_def micro_bench_get_max_real_def
      micro_bench_get_sum_cpu_def micro_bench_get_max_cpu_def)

text \<open>
  Claim C3. In every reachable state \<open>micro_bench_get_sum\<close>, and \<open>micro_bench_get_sum_real\<close>
  and \<open>micro_bench_get_sum_cpu\<close> of the dual-clock variant, return the running total of the
  samples. The code returns the maximum field instead: after the samples \<open>1.0\<close> and \<open>2.0\<close>
  the sum field is \<open>3.0\<close> and each sum getter returns \<open>2.0\<close>.
\<close>

theorem get_sum_returns_max:
  "bench_loop 1000000 [(0, 1000000), (0, 2000000)] (micro_bench_clear (Some MicroBench_zero)) =
     Some \<lparr>data = \<lparr>min_f = 1, max_f = 2, sum_f = 3, mean = 3 / 2, M2 = 1 / 2,
                    variance = 1 / 4, iterations = 2\<rparr>,
           start_time = 0\<rparr> \<and>
   micro_bench_get_sum
     (bench_loop 1000000 [(0, 1000000), (0, 2000000)] (micro_bench_clear (Some MicroBench_zero)))
     = Inr 2 \<and>
   bench_loop_dual 1000000
     [((0, timespec_zero), (1000000, \<lparr>tv_sec = 1, tv_nsec = 0\<rparr>)),
      ((0, timespec_zero), (2000000, \<lparr>tv_sec = 2, tv_nsec = 0\<rparr>))]
     (micro_bench_clear_dual (Some MicroBench_dual_zero)) =
     Some \<lparr>data_dual =
             \<lparr>min_cpu = 1, min_real = 1, max_cpu = 2, max_real = 2, sum_cpu = 3, sum_real = 3,
              mean_cpu = 3 / 2, mean_real = 3 / 2, M2_cpu = 1 / 2, M2_real = 1 / 2,
              variance_cpu = 1 / 4, variance_real = 1 / 4, iterations_dual = 2\<rparr>,
           start_time_cpu = 0, start_time_real = timespec_zero\<rparr> \<and>
   micro_bench_get_sum_real
     (bench_loop_dual 1000000
       [((0, timespec_zero), (1000000, \<lparr>tv_sec = 1, tv_nsec = 0\<rparr>)),
        ((0, timespec_zero), (2000000, \<lparr>tv_sec = 2, tv_nsec = 0\<rparr>))]
       (micro_bench_clear_dual (Some MicroBench_dual_zero))) = Inr 2 \<and>
   micro_bench_get_sum_cpu
     (bench_loop_dual 1000000
       [((0, timespec_zero), (1000000, \<lparr>tv_sec = 1, tv_nsec = 0\<rparr>)),
        ((0, timespec_zero), (2000000, \<lparr>tv_sec = 2, tv_nsec = 0\<rparr>))]
       (micro_bench_clear_dual (Some MicroBench_dual_zero))) = Inr 2"
  by (simp add: micro_bench_get_sum_def micro_bench_get_sum_real_def micro_bench_get_sum_cpu_def
      micro_bench_stop_def micro_bench_start_def micro_bench_clear_def
      micro_bench_stop_dual_def micro_bench_start_dual_def micro_bench_clear_dual_def
      zero_defs Let_def)

section \<open>The CSV reporter\<close>

text \<open>
  Claim C4. The CSV reporter prints a header row naming the fields and then a data row
  with the matching values in the same order, as many values as names; with one sample
  \<open>5.0\<close> the data row has \<open>5.0\<close> for min, max, sum and mean, \<open>0.0\<close> for the variance and \<open>1\<close>
  for the iterations. In the dual-clock variant the header names nine fields, without
  \<open>max_real\<close> and \<open>max_cpu\<close>, and the data row has eleven values, so the third and fourth
  values, the maxima, stand under \<open>sum_real\<close> and \<open>sum_cpu\<close>. In the single-clock variant the
  reporter prints the data row alone, with no header row.
\<close>

theorem csv_reporter_header_mismatch:
  "micro_bench_report_with_dual
     (bench_loop_dual 1000000 [((0, timespec_zero), (5000000, \<lparr>tv_sec = 5, tv_nsec = 0\<rparr>))]
        (micro_bench_clear_dual (Some MicroBench_dual_zero)))
     micro_bench_default_reporter_csv_dual =
     Inr [(''min_real,min_cpu,sum_real,sum_cpu,mean_real,mean_cpu,variance_real,variance_cpu,iterations''
             @ newline, []),
          (''%f,%f,%f,%f,%f,%f,%f,%f,%f,%f,%ld'' @ newline,
           [Double 5, Double 5, Double 5, Double 5, Double 5, Double 5, Double 5, Double 5,
            Double 0, Double 0, ULong 1])] \<and>
   csv_fields
     (''min_real,min_cpu,sum_real,sum_cpu,mean_real,mean_cpu,variance_real,variance_cpu,iterations''
        @ newline) =
     [''min_real'', ''min_cpu'', ''sum_real'', ''sum_cpu'', ''mean_real'', ''mean_cpu'',
      ''variance_real'', ''variance_cpu'', ''iterations''] \<and>
   csv_fields (''%f,%f,%f,%f,%f,%f,%f,%f,%f,%f,%ld'' @ newline) =
     [''%f'', ''%f'', ''%f'', ''%f'', ''%f'', ''%f'', ''%f'', ''%f'', ''%f'', ''%f'', ''%ld''] \<and>
   micro_bench_report_with
     (bench_loop 1000000 [(0, 5000000)] (micro_bench_clear (Some MicroBench_zero)))
     micro_bench_default_reporter_csv =
     Inr [(''%f,%f,%f,%f,%f,%ld'' @ newline,
           [Double 5, Double 5, Double 5, Double 5, Double 0, ULong 1])]"
  by (simp add: micro_bench_report_with_dual_def micro_bench_default_reporter_csv_dual_def
      micro_bench_report_with_def micro_bench_default_reporter_csv_def
      csv_fields_def newline_def
      micro_bench_stop_def micro_bench_start_def micro_bench_clear_def
      micro_bench_stop_dual_def micro_bench_start_dual_def micro_bench_clear_dual_def
      zero_defs Let_def)

section \<open>Stop without start\<close>

text \<open>
  Claim C5, as stated: a \<open>stop\<close> with no \<open>start\<close> before it signals an error and leaves the
  statistics unchanged. It fails on a cleared benchmark: \<open>stop\<close> at the clock reading of one
  second returns normally and commits the sample \<open>1.0\<close>, measured from the zero in the start
  slot.
\<close>

theorem stop_without_start_counterexample:
  "micro_bench_stop 1000000 1000000 (micro_bench_clear (Some MicroBench_zero)) =
     Some \<lparr>data = \<lparr>min_f = 1, max_f = 1, sum_f = 1, mean = 1, M2 = 0, variance = 0,
                    iterations = 1\<rparr>,
           start_time = 0\<rparr> \<and>
   micro_bench_clear (Some MicroBench_zero) =
     Some \<lparr>data = \<lparr>min_f = 0, max_f = 0, sum_f = 0, mean = 0, M2 = 0, variance = 0,
                    iterations = 0\<rparr>,
           start_time = 0\<rparr> \<and>
   map_option data (micro_bench_stop 1000000 1000000 (micro_bench_clear (Some MicroBench_zero)))
     \<noteq> map_option data (micro_bench_clear (Some MicroBench_zero))"
  by (simp add: micro_bench_stop_def micro_bench_clear_def zero_defs Let_def)

text \<open>
  Claim C5, amended. \<open>stop\<close> has no error outcome and keeps no record of whether \<open>start\<close> was
  called. In every state, with or without a \<open>start\<close> before it, it returns normally, adds
  one to the iteration counter and adds to the sum the sample measured from whatever the
  start slot holds.
\<close>

theorem stop_always_commits:
  "(\<exists>mb'. micro_bench_stop cps now (Some mb) = Some mb' \<and>
      iterations (data mb') = iterations (data mb) + 1 \<and>
      sum_f (data mb') = sum_f (data mb) + elapsed cps (start_time mb) now) \<and>
   (\<exists>db'. micro_bench_stop_dual cps now_cpu now_real (Some db) = Some db' \<and>
      iterations_dual (data_dual db') = iterations_dual (data_dual db) + 1 \<and>
      sum_cpu (data_dual db') = sum_cpu (data_dual db) + elapsed cps (start_time_cpu db) now_cpu \<and>
      sum_real (data_dual db') =
        sum_real (data_dual db) + elapsed_real (start_time_real db) now_real)"
  by (simp add: micro_bench_stop_def micro_bench_stop_dual_def Let_def elapsed_def
      elapsed_real_def)

section \<open>Null benchmark reference\<close>

text \<open>
  Claim C6. Every public operation called with a null benchmark is a no-op that returns at
  once, with no null dereference. \<open>start\<close>, \<open>stop\<close> and \<open>clear\<close> test the pointer and return
  (lemma \<open>null_is_noop\<close>); the getters, \<open>report\<close> and \<open>report_with\<close> with a default reporter do
  not test it and read through the null pointer.
\<close>

theorem getters_and_report_dereference_null:
  "micro_bench_get_min None = Inl NullDeref \<and>
   micro_bench_get_max None = Inl NullDeref \<and>
   micro_bench_get_mean None = Inl NullDeref \<and>
   micro_bench_get_sum None = Inl NullDeref \<and>
   micro_bench_get_variance None = Inl NullDeref \<and>
   micro_bench_report None = Inl NullDeref \<and>
   micro_bench_report_with None micro_bench_default_reporter_csv = Inl NullDeref \<and>
   micro_bench_get_min_real None = Inl NullDeref \<and>
   micro_bench_get_min_cpu None = Inl NullDeref \<and>
   micro_bench_get_max_real None = Inl NullDeref \<and>
   micro_bench_get_max_cpu None = Inl NullDeref \<and>
   micro_bench_get_mean_real None = Inl NullDeref \<and>
   micro_bench_get_mean_cpu None = Inl NullDeref \<and>
   micro_bench_get_sum_real None = Inl NullDeref \<and>
   micro_bench_get_sum_cpu None = Inl NullDeref \<and>
   micro_bench_get_variance_real None = Inl NullDeref \<and>
   micro_bench_get_variance_cpu None = Inl NullDeref \<and>
   micro_bench_report_dual None = Inl NullDeref \<and>
   micro_bench_report_with_dual None micro_bench_default_reporter_csv_dual = Inl NullDeref"
  by (simp add: micro_bench_get_min_def micro_bench_get_max_def micro_bench_get_mean_def
      micro_bench_get_sum_def micro_bench_get_variance_def micro_bench_report_def
      micro_bench_report_with_def micro_bench_default_reporter_stdout_def
      micro_bench_default_reporter_csv_def
      micro_bench_get_min_real_def micro_bench_get_min_cpu_def micro_bench_get_max_real_def
      micro_bench_get_max_cpu_def micro_bench_get_mean_real_def micro_bench_get_mean_cpu_def
      micro_bench_get_sum_real_def micro_bench_get_sum_cpu_def
      micro_bench_get_variance_real_def micro_bench_get_variance_cpu_def
      micro_bench_report_dual_def micro_bench_report_with_dual_def
      micro_bench_default_reporter_stdout_dual_def micro_bench_default_reporter_csv_dual_def)

section \<open>Clear\<close>

text \<open>
  Claim C7. A freshly cleared benchmark has an iteration counter of \<open>0\<close>, and each getter
  returns the value \<open>0\<close> on it, not a fault. A getter is a read: the source functions assign
  nothing, so the embedded getters map the benchmark to the value read and have no state
  to return.
\<close>

theorem cleared_getters_zero:
  "(\<exists>mb'. micro_bench_clear (Some mb) = Some mb' \<and>
      iterations (data mb') = 0 \<and>
      micro_bench_get_min (Some mb') = Inr 0 \<and>
      micro_bench_get_max (Some mb') = Inr 0 \<and>
      micro_bench_get_sum (Some mb') = Inr 0 \<and>
      micro_bench_get_mean (Some mb') = Inr 0 \<and>
      micro_bench_get_variance (Some mb') = Inr 0) \<and>
   (\<exists>db'. micro_bench_clear_dual (Some db) = Some db' \<and>
      iterations_dual (data_dual db') = 0 \<and>
      micro_bench_get_min_real (Some db') = Inr 0 \<and>
      micro_bench_get_min_cpu (Some db') = Inr 0 \<and>
      micro_bench_get_max_real (Some db') = Inr 0 \<and>
      micro_bench_get_max_cpu (Some db') = Inr 0 \<and>
      micro_bench_get_sum_real (Some db') = Inr 0 \<and>
      micro_bench_get_sum_cpu (Some db') = Inr 0 \<and>
      micro_bench_get_mean_real (Some db') = Inr 0 \<and>
      micro_bench_get_mean_cpu (Some db') = Inr 0 \<and>
      micro_bench_get_variance_real (Some db') = Inr 0 \<and>
      micro_bench_get_variance_cpu (Some db') = Inr 0)"
  by (simp add: micro_bench_clear_def micro_bench_clear_dual_def zero_defs
      micro_bench_get_min_def micro_bench_get_max_def micro_bench_get_mean_def
      micro_bench_get_sum_def micro_bench_get_variance_def
      micro_bench_get_min_real_def micro_bench_get_min_cpu_def micro_bench_get_max_real_def
      micro_bench_get_max_cpu_def micro_bench_get_mean_real_def micro_bench_get_mean_cpu_def
      micro_bench_get_sum_real_def micro_bench_get_sum_cpu_def
      micro_bench_get_variance_real_def micro_bench_get_variance_cpu_def)

text \<open>
  Claim C8. \<open>clear\<close> is idempotent: clearing twice gives the state that clearing once gives,
  and that state is the creation state, all statistics zero and the start slot zero.
\<close>

theorem clear_idempotent:
  "micro_bench_clear (micro_bench_clear mbp) = micro_bench_clear mbp \<and>
   micro_bench_clear (Some mb) = Some MicroBench_zero \<and>
   micro_bench_clear_dual (micro_bench_clear_dual dbp) = micro_bench_clear_dual dbp \<and>
   micro_bench_clear_dual (Some db) = Some MicroBench_dual_zero"
  by (cases mbp; cases dbp)
     (simp_all add: micro_bench_clear_def micro_bench_clear_dual_def zero_defs)

section \<open>Frame conditions of start and stop\<close>

text \<open>
  Claim C9. \<open>start\<close> writes the start slot only: the recorded data (min, max, sum, mean,
  \<open>M2\<close>, variance, iterations) after \<open>start\<close> is the recorded data before it.
\<close>

theorem start_keeps_statistics:
  "map_option data (micro_bench_start now mbp) = map_option data mbp \<and>
   map_option data_dual (micro_bench_start_dual now_cpu now_real dbp) = map_option data_dual dbp"
  by (cases mbp; cases dbp) (simp_all add: micro_bench_start_def micro_bench_start_dual_def)

lemma double_stop:
  "micro_bench_stop cps t2 (micro_bench_stop cps t1 (micro_bench_start s mbp)) =
   micro_bench_stop cps t2
     (micro_bench_start s (micro_bench_stop cps t1 (micro_bench_start s mbp)))"
proof (cases mbp)
  case None
  then show ?thesis by (simp add: null_is_noop)
next
  case (Some mb)
  obtain mb1 where 1: "micro_bench_stop cps t1 (Some (mb\<lparr>start_time := s\<rparr>)) = Some mb1"
    and 2: "start_time mb1 = s"
    using stop_Some [of cps t1 "mb\<lparr>start_time := s\<rparr>"] by auto
  have "micro_bench_start s mbp = Some (mb\<lparr>start_time := s\<rparr>)"
    using Some by (simp add: micro_bench_start_def)
  then show ?thesis using 1 start_same [OF 2] by simp
qed

lemma double_stop_dual:
  "micro_bench_stop_dual cps tc2 tr2
     (micro_bench_stop_dual cps tc1 tr1 (micro_bench_start_dual sc sr dbp)) =
   micro_bench_stop_dual cps tc2 tr2
     (micro_bench_start_dual sc sr
        (micro_bench_stop_dual cps tc1 tr1 (micro_bench_start_dual sc sr dbp)))"
proof (cases dbp)
  case None
  then show ?thesis by (simp add: null_is_noop)
next
  case (Some db)
  let ?db0 = "db\<lparr>start_time_cpu := sc, start_time_real := sr\<rparr>"
  obtain db1 where 1: "micro_bench_stop_dual cps tc1 tr1 (Some ?db0) = Some db1"
    and 2: "start_time_cpu db1 = sc" and 3: "start_time_real db1 = sr"
    using stop_dual_Some [of cps tc1 tr1 ?db0] by auto
  have "micro_bench_start_dual sc sr dbp = Some ?db0"
    using Some by (simp add: micro_bench_start_dual_def)
  then show ?thesis using 1 start_dual_same [OF 2 3] by simp
qed

lemma stop_keeps_slot:
  "map_option start_time (micro_bench_stop cps now mbp) = map_option start_time mbp"
  "map_option start_time_cpu (micro_bench_stop_dual cps now_cpu now_real dbp) =
     map_option start_time_cpu dbp"
  "map_option start_time_real (micro_bench_stop_dual cps now_cpu now_real dbp) =
     map_option start_time_real dbp"
  by (cases mbp; cases dbp; simp add: micro_bench_stop_def micro_bench_stop_dual_def Let_def)+

lemma double_stop_counts:
  "\<exists>mb'. micro_bench_stop cps t2 (micro_bench_stop cps t1 (micro_bench_start s (Some mb))) =
       Some mb' \<and>
     iterations (data mb') = iterations (data mb) + 2 \<and>
     sum_f (data mb') = sum_f (data mb) + elapsed cps s t1 + elapsed cps s t2"
proof -
  from cycle_fields [of cps t1 s mb] obtain mb1 where
    1: "micro_bench_stop cps t1 (micro_bench_start s (Some mb)) = Some mb1" and
    i1: "iterations (data mb1) = iterations (data mb) + 1"
    by blast
  from stop_Some [of cps t1 "mb\<lparr>start_time := s\<rparr>"] 1
  have st: "start_time mb1 = s" by (simp add: micro_bench_start_def)
  have s1: "sum_f (data mb1) = sum_f (data mb) + elapsed cps s t1"
    using 1 by (auto simp add: micro_bench_stop_def micro_bench_start_def Let_def elapsed_def)
  obtain mb2 where 2: "micro_bench_stop cps t2 (Some mb1) = Some mb2"
    using stop_Some by blast
  from 2 have "iterations (data mb2) = iterations (data mb1) + 1"
      and "sum_f (data mb2) = sum_f (data mb1) + elapsed cps (start_time mb1) t2"
    by (auto simp add: micro_bench_stop_def Let_def elapsed_def)
  with i1 s1 st 1 2 show ?thesis by simp
qed

lemma double_stop_counts_dual:
  "\<exists>db'. micro_bench_stop_dual cps tc2 tr2
            (micro_bench_stop_dual cps tc1 tr1 (micro_bench_start_dual sc sr (Some db))) =
       Some db' \<and>
     iterations_dual (data_dual db') = iterations_dual (data_dual db) + 2"
proof -
  from cycle_fields_dual [of cps tc1 tr1 sc sr db] obtain db1 where
    1: "micro_bench_stop_dual cps tc1 tr1 (micro_bench_start_dual sc sr (Some db)) = Some db1" and
    i1: "iterations_dual (data_dual db1) = iterations_dual (data_dual db) + 1"
    by blast
  obtain db2 where 2: "micro_bench_stop_dual cps tc2 tr2 (Some db1) = Some db2"
    using stop_dual_Some by blast
  from 2 have "iterations_dual (data_dual db2) = iterations_dual (data_dual db1) + 1"
    by (auto simp add: micro_bench_stop_dual_def Let_def)
  with i1 1 2 show ?thesis by simp
qed

text \<open>
  Claim C10. \<open>stop\<close> leaves the start slot as it was. So two \<open>stop\<close> calls after one \<open>start\<close>
  do what two full cycles started at that same reading do: both commit a sample, each
  measured from the one start reading, and the iteration counter grows by two.
\<close>

theorem stop_keeps_start_slot:
  "map_option start_time (micro_bench_stop cps now mbp) = map_option start_time mbp \<and>
   micro_bench_stop cps t2 (micro_bench_stop cps t1 (micro_bench_start s mbp)) =
     bench_loop cps [(s, t1), (s, t2)] mbp \<and>
   (\<exists>mb'. micro_bench_stop cps t2 (micro_bench_stop cps t1 (micro_bench_start s (Some mb))) =
        Some mb' \<and>
      iterations (data mb') = iterations (data mb) + 2 \<and>
      sum_f (data mb') = sum_f (data mb) + elapsed cps s t1 + elapsed cps s t2) \<and>
   map_option start_time_cpu (micro_bench_stop_dual cps now_cpu now_real dbp) =
     map_option start_time_cpu dbp \<and>
   map_option start_time_real (micro_bench_stop_dual cps now_cpu now_real dbp) =
     map_option start_time_real dbp \<and>
   micro_bench_stop_dual cps tc2 tr2
       (micro_bench_stop_dual cps tc1 tr1 (micro_bench_start_dual sc sr dbp)) =
     bench_loop_dual cps [((sc, sr), (tc1, tr1)), ((sc, sr), (tc2, tr2))] dbp \<and>
   (\<exists>db'. micro_bench_stop_dual cps tc2 tr2
            (micro_bench_stop_dual cps tc1 tr1 (micro_bench_start_dual sc sr (Some db))) =
        Some db' \<and>
      iterations_dual (data_dual db') = iterations_dual (data_dual db) + 2)"
proof -
  have "bench_loop cps [(s, t1), (s, t2)] mbp =
      micro_bench_stop cps t2
        (micro_bench_start s (micro_bench_stop cps t1 (micro_bench_start s mbp)))"
    by simp
  then have a: "micro_bench_stop cps t2 (micro_bench_stop cps t1 (micro_bench_start s mbp)) =
      bench_loop cps [(s, t1), (s, t2)] mbp"
    by (simp only: double_stop [symmetric])
  have "bench_loop_dual cps [((sc, sr), (tc1, tr1)), ((sc, sr), (tc2, tr2))] dbp =
      micro_bench_stop_dual cps tc2 tr2
        (micro_bench_start_dual sc sr
           (micro_bench_stop_dual cps tc1 tr1 (micro_bench_start_dual sc sr dbp)))"
    by simp
  then have b: "micro_bench_stop_dual cps tc2 tr2
       (micro_bench_stop_dual cps tc1 tr1 (micro_bench_start_dual sc sr dbp)) =
     bench_loop_dual cps [((sc, sr), (tc1, tr1)), ((sc, sr), (tc2, tr2))] dbp"
    by (simp only: double_stop_dual [symmetric])
  show ?thesis
    by (intro conjI)
      (rule stop_keeps_slot(1), rule a, rule double_stop_counts,
       rule stop_keeps_slot(2), rule stop_keeps_slot(3), rule b, rule double_stop_counts_dual)
qed

end
